theory Spec2Isabelle
  imports Main "HOL-Library.Word"
begin

section \<open>Errors\<close>

text \<open>
  Go errors are values. \<open>Errorf msg e\<close> is \<^verbatim>\<open>xerrors.Errorf("msg: %w", e)\<close>,
  \<open>CallFailed d\<close> is \<^verbatim>\<open>fmt.Errorf("failed to call method: %s", d)\<close>. A run-time panic
  (index or slice bound out of range, the panic of \<^verbatim>\<open>mustEnc\<close>) is the value \<open>Panic\<close>: it
  unwinds through every caller, so no caller wraps it.
\<close>

datatype error =
    Errorf string error
  | CallFailed string
  | ActorNotFound
  | BlockNotFound
  | DecodeFailed
  | PutRefused
  | External string
  | Panic string

fun wrapf :: "string \<Rightarrow> error \<Rightarrow> error" where
  "wrapf msg (Panic p) = Panic p"
| "wrapf msg e = Errorf msg e"

section \<open>The head window of the health agent\<close>

text \<open>
  Go's \<^verbatim>\<open>int\<close> is 64 bits wide and wraps around; \<open>wrap64\<close> is the value of a
  mathematical integer as a signed 64-bit one.
\<close>

definition wrap64 :: "int \<Rightarrow> int" where
  "wrap64 x = (x + 2 ^ 63) mod 2 ^ 64 - 2 ^ 63"

text \<open>
  \<^verbatim>\<open>
  func appendCIDsToWindow(w [][]cid.Cid, c []cid.Cid, t int) [][]cid.Cid {
      offset := len(w) - t + 1
      if offset >= 0 {
          return append(w[offset:], c)
      }
      return append(w, c)
  }
  \<close>
  The slice expression \<^verbatim>\<open>w[offset:]\<close> panics when \<open>offset\<close> is greater than \<open>len(w)\<close>.
\<close>

definition appendCIDsToWindow :: "'c list \<Rightarrow> 'c \<Rightarrow> int \<Rightarrow> error + 'c list" where
  "appendCIDsToWindow w c t =
     (let offset = wrap64 (wrap64 (int (length w) - t) + 1) in
      if offset \<ge> 0 then
        (if offset > int (length w) then Inl (Panic ''slice bounds out of range'')
         else Inr (drop (nat offset) w @ [c]))
      else Inr (w @ [c]))"

section \<open>Data of the genesis construction\<close>

text \<open>
  The packages \<^verbatim>\<open>address\<close>, \<^verbatim>\<open>types\<close>, \<^verbatim>\<open>actors\<close>, \<^verbatim>\<open>state\<close>, \<^verbatim>\<open>vm\<close> and \<^verbatim>\<open>build\<close> that
  the package \<^verbatim>\<open>gen\<close> imports are not among the sources; what the code uses of them is
  modelled here, the structs with the fields the code reads and writes.

  Modelled from the spec: the four addresses \<^verbatim>\<open>actors.InitActorAddress\<close>,
  \<^verbatim>\<open>actors.StorageMarketAddress\<close>, \<^verbatim>\<open>actors.NetworkAddress\<close> and
  \<^verbatim>\<open>actors.BurntFundsAddress\<close> are "a small closed enum of reserved addresses"; every
  other address is given by its bytes. An address is identified by its byte string, so the
  key \<^verbatim>\<open>string(a.Bytes())\<close> of a map is the address itself.
\<close>

type_synonym u64 = "64 word"
type_synonym peerID = string

datatype address =
    InitActorAddress
  | StorageMarketAddress
  | NetworkAddress
  | BurntFundsAddress
  | Address string

text \<open>\<^verbatim>\<open>types.BigInt\<close> wraps \<^verbatim>\<open>big.Int\<close>: an unbounded integer.\<close>

definition NewInt :: "u64 \<Rightarrow> int" where
  "NewInt n = uint n"

definition BigSub :: "int \<Rightarrow> int \<Rightarrow> int" where
  "BigSub a b = a - b"

record StorageMinerActorState =
  Power :: int
  Opaque :: string

record Ticket =
  VRFProof :: string
  VDFResult :: string
  VDFProof :: string

datatype sigtype = KTBLS | KTSecp256k1

record Signature =
  Type :: sigtype
  Data :: string

text \<open>
  Modelled from the spec: "identical byte content always yields the identical identifier".
  A content identifier is symbolic: \<open>CidOf x\<close> is the identifier of the object \<open>x\<close>, so
  that equal contents have equal identifiers and different contents different ones. The
  code identifiers of the built-in actors are constants of the package \<^verbatim>\<open>actors\<close>.
  \<open>obj\<close> lists the objects that the construction serialises: the empty
  \<^verbatim>\<open>map[string]string\<close>, a hamt node from address bytes to ids, the states of the init,
  storage market and miner actors, the state tree, an array of the package
  \<^verbatim>\<open>sharray\<close> (its width and items), \<^verbatim>\<open>types.MsgMeta\<close> and a block header.
\<close>

datatype cid =
    Undef
  | InitActorCodeCid
  | AccountActorCodeCid
  | StorageMarketActorCodeCid
  | CodeCid string
  | CidOf obj
and obj =
    EmptyObject
  | HamtNode "address \<Rightarrow> u64 option"
  | InitActorStateObj u64 cid
  | StorageMarketStateObj cid int
  | StorageMinerActorStateObj StorageMinerActorState
  | StateTreeObj "address \<Rightarrow> actor option"
  | SharrayObj nat "cid list"
  | MsgMetaObj cid cid
  | BlockHeaderObj header
and actor =
    Actor (Code: cid) (Head: cid) (Nonce: u64) (Balance: int)
and header =
    BlockHeader (Miner: address) (Tickets: "Ticket list") (ElectionProof: string)
      (Parents: "cid list") (Height: u64) (ParentWeight: int) (StateRoot: cid)
      (Messages: cid) (MessageReceipts: cid) (BLSAggregate: Signature)
      (BlockSig: Signature) (Timestamp: u64)

type_synonym StateTree = "address \<Rightarrow> actor option"
type_synonym hamt = "address \<Rightarrow> u64 option"

record GenesisBootstrap =
  Genesis :: header

record GenMinerCfg =
  Owners :: "address list"
  Workers :: "address list"
  MinerAddrs :: "address list"
  PeerIDs :: "peerID list"

datatype params =
    CreateStorageMinerParams address address int peerID
  | UpdateStorageParams int

record Message =
  To :: address
  From :: address
  Method :: u64
  Params :: string
  GasLimit :: int
  GasPrice :: int
  Value :: int
  MsgNonce :: u64

record ApplyRet =
  ExitCode :: nat
  Return :: string
  ActorErr :: string

text \<open>
  The blockstore is an interface whose implementation the caller supplies. It holds a set
  of objects, each under its own identifier, and its \<^verbatim>\<open>Put\<close> may fail: \<open>refuses\<close> says for
  which objects.
\<close>

record blockstore =
  blocks :: "obj set"
  refuses :: "obj \<Rightarrow> bool"

text \<open>
  Modelled from the spec: the execution engine keeps the state tree it works on and buffers
  its writes, "flush" moves the buffered writes into the blockstore and returns the root of
  the state tree.
\<close>

record vm =
  cstate :: StateTree
  buffered :: "obj set"

text \<open>
  What the genesis code takes from packages that are not among the sources: the constants
  of \<^verbatim>\<open>build\<close>, \<^verbatim>\<open>types.Fil\<close>, the two method numbers of \<^verbatim>\<open>actors.SMAMethods\<close>,
  \<^verbatim>\<open>actors.SerializeParams\<close>, \<^verbatim>\<open>address.NewFromBytes\<close> and the execution of a message by
  the engine, \<^verbatim>\<open>vm.ApplyMessage\<close>, which reads the blockstore and changes the engine's state.
\<close>

record env =
  TotalFilecoin :: u64
  SectorSize :: u64
  Fil :: "int \<Rightarrow> int"
  CreateStorageMiner :: u64
  UpdateStorage :: u64
  SerializeParams :: "params \<Rightarrow> error + string"
  NewFromBytes :: "string \<Rightarrow> error + address"
  ApplyMessage :: "vm \<Rightarrow> obj set \<Rightarrow> Message \<Rightarrow> error + (ApplyRet \<times> vm)"

text \<open>
  The two objects that the construction mutates in place and that outlive a failed run: the
  blockstore and the miner configuration passed by pointer.
\<close>

record heap =
  bstore :: blockstore
  gmcfg :: GenMinerCfg

section \<open>Effects\<close>

text \<open>
  A function of the genesis code returns a value or an error and changes the state it works
  on, also when it fails: \<open>('s, 'a) M\<close>. \<open>andThen\<close> is the sequence of two calls with
  \<^verbatim>\<open>if err != nil { return nil, err }\<close> between them, \<open>wrapE\<close> the same with
  \<^verbatim>\<open>xerrors.Errorf\<close> around the error.
\<close>

type_synonym ('s, 'a) M = "'s \<Rightarrow> (error + 'a) \<times> 's"

definition ok :: "'a \<Rightarrow> ('s, 'a) M" where
  "ok x = (\<lambda>s. (Inr x, s))"

definition fail :: "error \<Rightarrow> ('s, 'a) M" where
  "fail e = (\<lambda>s. (Inl e, s))"

definition liftE :: "error + 'a \<Rightarrow> ('s, 'a) M" where
  "liftE r = (\<lambda>s. (r, s))"

definition andThen :: "('s, 'a) M \<Rightarrow> ('a \<Rightarrow> ('s, 'b) M) \<Rightarrow> ('s, 'b) M" where
  "andThen m f = (\<lambda>s. case m s of (Inl e, s') \<Rightarrow> (Inl e, s') | (Inr x, s') \<Rightarrow> f x s')"

definition wrapE :: "string \<Rightarrow> ('s, 'a) M \<Rightarrow> ('s, 'a) M" where
  "wrapE msg m =
     (\<lambda>s. case m s of (Inl e, s') \<Rightarrow> (Inl (wrapf msg e), s') | (Inr x, s') \<Rightarrow> (Inr x, s'))"

definition on_bstore :: "(blockstore, 'a) M \<Rightarrow> (heap, 'a) M" where
  "on_bstore m = (\<lambda>h. case m (bstore h) of (r, b) \<Rightarrow> (r, h\<lparr>bstore := b\<rparr>))"

definition index :: "'a list \<Rightarrow> nat \<Rightarrow> error + 'a" where
  "index xs i = (if i < length xs then Inr (xs ! i) else Inl (Panic ''index out of range''))"

section \<open>The blockstore, hamt nodes and the state tree\<close>

text \<open>
  \<^verbatim>\<open>cst.Put\<close> stores an object and returns its identifier, \<^verbatim>\<open>cst.Get\<close> reads the object
  of an identifier, \<^verbatim>\<open>bs.Put\<close> stores a serialised block.
\<close>

definition cst_Put :: "obj \<Rightarrow> (blockstore, cid) M" where
  "cst_Put x =
     (\<lambda>bs. if refuses bs x then (Inl PutRefused, bs)
           else (Inr (CidOf x), bs\<lparr>blocks := insert x (blocks bs)\<rparr>))"

definition cst_Get :: "cid \<Rightarrow> (blockstore, obj) M" where
  "cst_Get c =
     (\<lambda>bs. case c of
             CidOf x \<Rightarrow> if x \<in> blocks bs then (Inr x, bs) else (Inl BlockNotFound, bs)
           | _ \<Rightarrow> (Inl BlockNotFound, bs))"

definition bs_Put :: "obj \<Rightarrow> (blockstore, unit) M" where
  "bs_Put x = andThen (cst_Put x) (\<lambda>c. ok ())"

text \<open>\<^verbatim>\<open>ToStorageBlock\<close> serialises; the block of an object is the object, under its identifier.\<close>

definition ToStorageBlock :: "obj \<Rightarrow> error + obj" where
  "ToStorageBlock x = Inr x"

text \<open>
  A hamt node is built in memory (\<^verbatim>\<open>hamt.NewNode\<close>, \<^verbatim>\<open>Set\<close>); \<^verbatim>\<open>Flush\<close> writes its children,
  of which the model has none, and \<^verbatim>\<open>cst.Put\<close> stores the node.
\<close>

definition hamt_NewNode :: hamt where
  "hamt_NewNode = Map.empty"

definition hamt_Set :: "hamt \<Rightarrow> address \<Rightarrow> u64 \<Rightarrow> error + hamt" where
  "hamt_Set nd k v = Inr (nd(k \<mapsto> v))"

definition hamt_Flush :: "hamt \<Rightarrow> (blockstore, unit) M" where
  "hamt_Flush nd = ok ()"

text \<open>
  Modelled from the spec: the state tree of the package \<^verbatim>\<open>state\<close> is a "mapping from
  Address to Actor", "created empty, populated via Set, made durable and hashed via Flush";
  \<^verbatim>\<open>SetActor\<close> replaces the whole record of an address.
\<close>

definition NewStateTree :: "(blockstore, StateTree) M" where
  "NewStateTree = ok Map.empty"

definition SetActor :: "StateTree \<Rightarrow> address \<Rightarrow> actor \<Rightarrow> error + StateTree" where
  "SetActor st a act = Inr (st(a \<mapsto> act))"

definition GetActor :: "StateTree \<Rightarrow> address \<Rightarrow> error + actor" where
  "GetActor st a = (case st a of None \<Rightarrow> Inl ActorNotFound | Some act \<Rightarrow> Inr act)"

definition StateTree_Flush :: "StateTree \<Rightarrow> (blockstore, cid) M" where
  "StateTree_Flush st = cst_Put (StateTreeObj st)"

definition sharray_Build :: "nat \<Rightarrow> cid list \<Rightarrow> (blockstore, cid) M" where
  "sharray_Build width items = cst_Put (SharrayObj width items)"

section \<open>The system actors\<close>

text \<open>
  \<^verbatim>\<open>
  for i, a := range addrs {
      if err := amap.Set(context.TODO(), string(a.Bytes()), 100+uint64(i)); err != nil {
          return nil, err
      }
  }
  \<close>
\<close>

fun set_ids :: "address list \<Rightarrow> nat \<Rightarrow> hamt \<Rightarrow> error + hamt" where
  "set_ids [] i amap = Inr amap"
| "set_ids (a # as) i amap =
     (case hamt_Set amap a (100 + word_of_nat i) of
        Inl e \<Rightarrow> Inl e
      | Inr amap' \<Rightarrow> set_ids as (Suc i) amap')"

text \<open>
  \<^verbatim>\<open>SetupInitActor\<close>. The actor is built with \<^verbatim>\<open>Code\<close> and \<^verbatim>\<open>Head\<close> only: its nonce and
  balance are the zero values.
\<close>

definition SetupInitActor :: "address list \<Rightarrow> (blockstore, actor) M" where
  "SetupInitActor addrs =
     andThen (liftE (set_ids addrs 0 hamt_NewNode)) (\<lambda>amap.
     let NextID = 100 + word_of_nat (length addrs) in
     andThen (hamt_Flush amap) (\<lambda>_.
     andThen (cst_Put (HamtNode amap)) (\<lambda>amapcid.
     andThen (cst_Put (InitActorStateObj NextID amapcid)) (\<lambda>statecid.
     ok (Actor InitActorCodeCid statecid 0 0)))))"

definition SetupStorageMarketActor :: "(blockstore, actor) M" where
  "SetupStorageMarketActor =
     andThen (cst_Put (HamtNode hamt_NewNode)) (\<lambda>emptyhamt.
     andThen (cst_Put (StorageMarketStateObj emptyhamt (NewInt 0))) (\<lambda>stcid.
     ok (Actor StorageMarketActorCodeCid stcid 0 (NewInt 0))))"

text \<open>
  A \<^verbatim>\<open>range\<close> over a Go map visits every entry once, in an order that the language leaves
  open and that may differ from one loop to the next. A loop over the map is a loop over a
  list of its entries; \<open>range_of m r\<close> says that \<open>r\<close> is such a list for the map \<open>m\<close>.
\<close>

definition range_of :: "(address \<Rightarrow> int option) \<Rightarrow> (address \<times> int) list \<Rightarrow> bool" where
  "range_of m r \<longleftrightarrow> distinct (map fst r) \<and> map_of r = m"

text \<open>
  \<^verbatim>\<open>
  for a, v := range actmap {
      err = state.SetActor(a, &types.Actor{Code: actors.AccountActorCodeCid, Balance: v, Head: emptyobject})
      if err != nil {
          return nil, xerrors.Errorf("setting account from actmap: %w", err)
      }
  }
  \<close>
\<close>

fun set_accounts :: "cid \<Rightarrow> (address \<times> int) list \<Rightarrow> StateTree \<Rightarrow> error + StateTree" where
  "set_accounts emptyobject [] st = Inr st"
| "set_accounts emptyobject ((a, v) # r) st =
     (case SetActor st a (Actor AccountActorCodeCid emptyobject 0 v) of
        Inl e \<Rightarrow> Inl (wrapf ''setting account from actmap'' e)
      | Inr st' \<Rightarrow> set_accounts emptyobject r st')"

text \<open>
  \<^verbatim>\<open>MakeInitialStateTree\<close>, with the entries of \<^verbatim>\<open>actmap\<close> as its three loops visit them:
  \<open>r1\<close> collects the addresses for the init actor, \<open>r2\<close> subtracts the balances from the
  total, \<open>r3\<close> sets the account actors.
\<close>

definition MakeInitialStateTree ::
  "env \<Rightarrow> (address \<times> int) list \<Rightarrow> (address \<times> int) list \<Rightarrow> (address \<times> int) list
     \<Rightarrow> (blockstore, StateTree) M" where
  "MakeInitialStateTree E r1 r2 r3 =
     andThen (wrapE ''making new state tree'' NewStateTree) (\<lambda>state.
     andThen (wrapE ''failed putting empty object'' (cst_Put EmptyObject)) (\<lambda>emptyobject.
     let addrs = map fst r1 in
     andThen (wrapE ''setup init actor'' (SetupInitActor addrs)) (\<lambda>initact.
     andThen (wrapE ''set init actor'' (liftE (SetActor state InitActorAddress initact))) (\<lambda>state.
     andThen (wrapE ''setup storage market actor'' SetupStorageMarketActor) (\<lambda>smact.
     andThen (wrapE ''set storage market actor''
                (liftE (SetActor state StorageMarketAddress smact))) (\<lambda>state.
     let netAmt = fold (\<lambda>(a, amt) n. BigSub n amt) r2 (Fil E (NewInt (TotalFilecoin E))) in
     andThen (wrapE ''set network account actor''
                (liftE (SetActor state NetworkAddress
                          (Actor AccountActorCodeCid emptyobject 0 netAmt)))) (\<lambda>state.
     andThen (wrapE ''set burnt funds account actor''
                (liftE (SetActor state BurntFundsAddress
                          (Actor AccountActorCodeCid emptyobject 0 (NewInt 0))))) (\<lambda>state.
     liftE (set_accounts emptyobject r3 state)))))))))"

section \<open>The storage miners\<close>

text \<open>
  Modelled from the spec: \<^verbatim>\<open>vm.NewVM\<close> loads the state tree of the given root from the
  blockstore; \<^verbatim>\<open>vm.Flush\<close> moves the buffered writes into the blockstore, stores the state
  tree and returns its root.
\<close>

definition NewVM :: "cid \<Rightarrow> (blockstore, vm) M" where
  "NewVM sroot =
     andThen (cst_Get sroot) (\<lambda>x.
       case x of
         StateTreeObj st \<Rightarrow> ok \<lparr>cstate = st, buffered = {}\<rparr>
       | _ \<Rightarrow> fail DecodeFailed)"

definition vm_Flush :: "vm \<Rightarrow> (blockstore, cid) M" where
  "vm_Flush v =
     (\<lambda>bs. cst_Put (StateTreeObj (cstate v)) (bs\<lparr>blocks := blocks bs \<union> buffered v\<rparr>))"

text \<open>\<^verbatim>\<open>cst.Get(ctx, mact.Head, &mstate)\<close>: the object read must decode as a miner state.\<close>

definition cst_Get_mstate :: "cid \<Rightarrow> (blockstore, StorageMinerActorState) M" where
  "cst_Get_mstate c =
     andThen (cst_Get c) (\<lambda>x.
       case x of
         StorageMinerActorStateObj mstate \<Rightarrow> ok mstate
       | _ \<Rightarrow> fail DecodeFailed)"

text \<open>\<^verbatim>\<open>mustEnc\<close> panics when the parameters cannot be serialised.\<close>

definition mustEnc :: "env \<Rightarrow> params \<Rightarrow> error + string" where
  "mustEnc E i =
     (case SerializeParams E i of
        Inl err \<Rightarrow> Inl (Panic ''mustEnc'')
      | Inr enc \<Rightarrow> Inr enc)"

text \<open>
  \<^verbatim>\<open>doExec\<close> returns the bytes that the method returned, and the engine as the message
  left it.
\<close>

definition doExec ::
  "env \<Rightarrow> vm \<Rightarrow> address \<Rightarrow> address \<Rightarrow> u64 \<Rightarrow> string \<Rightarrow> (blockstore, string \<times> vm) M" where
  "doExec E v to from method params =
     andThen (wrapE ''doExec failed to get from actor'' (liftE (GetActor (cstate v) from)))
       (\<lambda>act.
     andThen (wrapE ''doExec apply message failed''
                (\<lambda>bs. (ApplyMessage E v (blocks bs)
                         \<lparr>To = to, From = from, Method = method, Params = params,
                          GasLimit = NewInt 1000000, GasPrice = NewInt 0, Value = NewInt 0,
                          MsgNonce = Nonce act\<rparr>, bs)))
       (\<lambda>(ret, v').
     if ExitCode ret \<noteq> 0 then fail (CallFailed (ActorErr ret))
     else ok (Return ret, v')))"

text \<open>
  The body of the loop of \<^verbatim>\<open>SetupStorageMiners\<close> for the index \<open>i\<close>: the two messages, the
  flush, and the power of the new miner written into its state past the engine.
\<close>

definition setupMiner :: "env \<Rightarrow> nat \<Rightarrow> vm \<Rightarrow> (heap, vm) M" where
  "setupMiner E i v =
     andThen (\<lambda>h. (index (Owners (gmcfg h)) i, h)) (\<lambda>owner.
     andThen (\<lambda>h. (index (Workers (gmcfg h)) i, h)) (\<lambda>worker.
     andThen (\<lambda>h. (index (PeerIDs (gmcfg h)) i, h)) (\<lambda>pid.
     andThen (liftE (mustEnc E (CreateStorageMinerParams owner worker
                                  (NewInt (SectorSize E)) pid))) (\<lambda>params.
     andThen (wrapE ''failed to create genesis miner''
                (on_bstore (doExec E v StorageMarketAddress owner
                              (CreateStorageMiner E) params))) (\<lambda>(rval, v).
     andThen (liftE (NewFromBytes E rval)) (\<lambda>maddr.
     andThen (\<lambda>h. (Inr (),
                    h\<lparr>gmcfg := (gmcfg h)\<lparr>MinerAddrs := MinerAddrs (gmcfg h) @ [maddr]\<rparr>\<rparr>))
       (\<lambda>_.
     andThen (liftE (mustEnc E (UpdateStorageParams (NewInt 5000)))) (\<lambda>params.
     andThen (wrapE ''failed to update total storage''
                (on_bstore (doExec E v StorageMarketAddress maddr
                              (UpdateStorage E) params))) (\<lambda>(_, v).
     andThen (wrapE ''vm.Flush failed'' (on_bstore (vm_Flush v))) (\<lambda>_.
     let st = cstate v in
     andThen (wrapE ''get miner actor failed'' (liftE (GetActor st maddr))) (\<lambda>mact.
     andThen (wrapE ''getting miner actor state failed''
                (on_bstore (cst_Get_mstate (Head mact)))) (\<lambda>mstate.
     let mstate = mstate\<lparr>Power := NewInt 5000\<rparr> in
     andThen (on_bstore (cst_Put (StorageMinerActorStateObj mstate))) (\<lambda>nstate.
     let mact = Actor (Code mact) nstate (Nonce mact) (Balance mact) in
     andThen (liftE (SetActor st maddr mact)) (\<lambda>st.
     ok (v\<lparr>cstate := st\<rparr>)))))))))))))))"

text \<open>
  \<^verbatim>\<open>for i := 0; i < len(gmcfg.Workers); i++ { ... }\<close>, leaving at the first error. The
  loop ends because its body leaves \<^verbatim>\<open>gmcfg.Workers\<close> as it is.
\<close>

function miners_loop :: "env \<Rightarrow> nat \<Rightarrow> vm \<Rightarrow> (heap, vm) M" where
  "miners_loop E i v h =
     (if i < length (Workers (gmcfg h)) then
        (case setupMiner E i v h of
           (Inl e, h') \<Rightarrow> (Inl e, h')
         | (Inr v', h') \<Rightarrow> miners_loop E (Suc i) v' h')
      else (Inr v, h))"
  by pat_completeness auto
termination
  apply (relation "measure (\<lambda>(E, i, v, h). length (Workers (gmcfg h)) - i)")
   apply simp
  apply (auto simp: setupMiner_def andThen_def wrapE_def on_bstore_def liftE_def ok_def
      fail_def Let_def split: prod.splits sum.splits if_splits)
  done

declare miners_loop.simps [simp del]

definition SetupStorageMiners :: "env \<Rightarrow> cid \<Rightarrow> (heap, cid) M" where
  "SetupStorageMiners E sroot =
     andThen (wrapE ''failed to create NewVM'' (on_bstore (NewVM sroot))) (\<lambda>v.
     andThen (miners_loop E 0 v) (\<lambda>v.
     on_bstore (vm_Flush v)))"

section \<open>The genesis block\<close>

definition MakeGenesisBlock ::
  "env \<Rightarrow> (address \<times> int) list \<Rightarrow> (address \<times> int) list \<Rightarrow> (address \<times> int) list \<Rightarrow> u64
     \<Rightarrow> (heap, GenesisBootstrap) M" where
  "MakeGenesisBlock E r1 r2 r3 ts =
     andThen (wrapE ''make initial state tree failed''
                (on_bstore (MakeInitialStateTree E r1 r2 r3))) (\<lambda>state.
     andThen (wrapE ''flush state tree failed'' (on_bstore (StateTree_Flush state)))
       (\<lambda>stateroot.
     andThen (wrapE ''setup storage miners failed'' (SetupStorageMiners E stateroot))
       (\<lambda>stateroot.
     andThen (wrapE ''sharray build failed'' (on_bstore (sharray_Build 4 []))) (\<lambda>emptyroot.
     let mm = MsgMetaObj emptyroot emptyroot in
     andThen (wrapE ''serializing msgmeta failed'' (liftE (ToStorageBlock mm))) (\<lambda>mmb.
     andThen (wrapE ''putting msgmeta block to blockstore'' (on_bstore (bs_Put mmb))) (\<lambda>_.
     let genesisticket =
           \<lparr>VRFProof = ''vrf proof'', VDFResult = ''i am a vdf result'',
            VDFProof = ''vdf proof''\<rparr>;
         b = BlockHeader InitActorAddress [genesisticket] ''the Genesis block'' [] 0
               (NewInt 0) stateroot (CidOf mmb) emptyroot
               \<lparr>Type = KTBLS, Data = ''signatureeee''\<rparr>
               \<lparr>Type = KTBLS, Data = ''block signatureeee''\<rparr> ts in
     andThen (wrapE ''serializing block header failed''
                (liftE (ToStorageBlock (BlockHeaderObj b)))) (\<lambda>sb.
     andThen (wrapE ''putting header to blockstore'' (on_bstore (bs_Put sb))) (\<lambda>_.
     ok \<lparr>Genesis = b\<rparr>))))))))"

section \<open>Notions for the properties\<close>

text \<open>
  \<open>reached E v0 h0 i v h\<close>: the loop of \<open>SetupStorageMiners\<close>, started with the engine \<open>v0\<close>
  and the heap \<open>h0\<close>, arrives at the index \<open>i\<close> with the engine \<open>v\<close> and the heap \<open>h\<close>, the
  miners before \<open>i\<close> having been set up without error.
\<close>

inductive reached :: "env \<Rightarrow> vm \<Rightarrow> heap \<Rightarrow> nat \<Rightarrow> vm \<Rightarrow> heap \<Rightarrow> bool"
  for E :: env and v0 :: vm and h0 :: heap where
  start: "reached E v0 h0 0 v0 h0"
| step: "reached E v0 h0 i v h \<Longrightarrow> i < length (Workers (gmcfg h))
           \<Longrightarrow> setupMiner E i v h = (Inr v', h') \<Longrightarrow> reached E v0 h0 (Suc i) v' h'"



text \<open>
  \<open>cut_cfg n h\<close>: the heap \<open>h\<close> with the owners and the peer ids of the miner
  configuration cut to their first \<open>n\<close> entries.
\<close>

definition cut_cfg :: "nat \<Rightarrow> heap \<Rightarrow> heap" where
  "cut_cfg n h = h\<lparr>gmcfg := (gmcfg h)\<lparr>Owners := take n (Owners (gmcfg h)),
                                      PeerIDs := take n (PeerIDs (gmcfg h))\<rparr>\<rparr>"

text \<open>A message never makes the engine buffer a block header that it had not buffered.\<close>

definition buffers_no_header :: "env \<Rightarrow> bool" where
  "buffers_no_header E \<longleftrightarrow>
     (\<forall>v blks msg ret v' b.
        ApplyMessage E v blks msg = Inr (ret, v') \<longrightarrow> BlockHeaderObj b \<in> buffered v'
        \<longrightarrow> BlockHeaderObj b \<in> buffered v)"

section \<open>A sample instance\<close>

text \<open>
  To run the construction on concrete inputs: a blockstore in memory, empty and accepting
  every object, and a small engine. The engine answers the method 1 by registering a miner
  actor of power 0 under the address made of \<open>miner:\<close> and the peer id, which it returns,
  unless the peer id is \<open>bad\<close>, when it exits with the code 1, or the address is taken,
  when it exits with 3; it answers any other method with the exit code 0, unless the sender
  is the miner \<open>lazy\<close>, when it exits with 2.
\<close>

definition mem_bstore :: blockstore where
  "mem_bstore = \<lparr>blocks = {}, refuses = (\<lambda>x. False)\<rparr>"

definition sample_apply :: "vm \<Rightarrow> obj set \<Rightarrow> Message \<Rightarrow> error + (ApplyRet \<times> vm)" where
  "sample_apply v blks msg =
     (if Method msg = 1 then
        (if Params msg = ''create:bad'' then
           Inr (\<lparr>ExitCode = 1, Return = [], ActorErr = ''bad peer''\<rparr>, v)
         else
           (let name = drop 7 (Params msg);
                mstate = StorageMinerActorStateObj \<lparr>Power = 0, Opaque = name\<rparr>
            in if cstate v (Address (''miner:'' @ name)) \<noteq> None then
                 Inr (\<lparr>ExitCode = 3, Return = [], ActorErr = ''miner exists''\<rparr>, v)
               else
                 Inr (\<lparr>ExitCode = 0, Return = ''miner:'' @ name, ActorErr = []\<rparr>,
                      v\<lparr>cstate := (cstate v)(Address (''miner:'' @ name) \<mapsto>
                                     Actor (CodeCid ''sminer'') (CidOf mstate) 0 0),
                        buffered := insert mstate (buffered v)\<rparr>)))
      else if From msg = Address ''miner:lazy'' then
        Inr (\<lparr>ExitCode = 2, Return = [], ActorErr = ''no storage''\<rparr>, v)
      else Inr (\<lparr>ExitCode = 0, Return = [], ActorErr = []\<rparr>, v))"

fun sample_serialize :: "params \<Rightarrow> error + string" where
  "sample_serialize (CreateStorageMinerParams owner worker ssize pid) = Inr (''create:'' @ pid)"
| "sample_serialize (UpdateStorageParams delta) = Inr ''update''"

definition sample_env :: env where
  "sample_env =
     \<lparr>TotalFilecoin = 1000, SectorSize = 1024, Fil = (\<lambda>n. n),
      CreateStorageMiner = 1, UpdateStorage = 2,
      SerializeParams = sample_serialize,
      NewFromBytes = (\<lambda>b. if b = [] then Inl (External ''empty address'') else Inr (Address b)),
      ApplyMessage = sample_apply\<rparr>"

definition sample_cfg :: GenMinerCfg where
  "sample_cfg = \<lparr>Owners = [Address ''A''], Workers = [Address ''B''], MinerAddrs = [],
                 PeerIDs = [''P'']\<rparr>"

definition sample_heap :: heap where
  "sample_heap = \<lparr>bstore = mem_bstore, gmcfg = sample_cfg\<rparr>"

definition sample_balances :: "(address \<times> int) list" where
  "sample_balances = [(Address ''A'', 100)]"

text \<open>
  A state tree with the account \<open>A\<close> alone, and a heap whose blockstore holds it, with a
  configuration of two miners.
\<close>

definition sample_tree :: StateTree where
  "sample_tree = Map.empty(Address ''A'' \<mapsto> Actor AccountActorCodeCid (CidOf EmptyObject) 0 100)"

definition sample_tree_heap :: heap where
  "sample_tree_heap =
     \<lparr>bstore = \<lparr>blocks = {StateTreeObj sample_tree}, refuses = (\<lambda>x. False)\<rparr>,
      gmcfg = \<lparr>Owners = [Address ''A'', Address ''A''], Workers = [Address ''B'', Address ''C''],
               MinerAddrs = [], PeerIDs = [''P'', ''Q'']\<rparr>\<rparr>"

section \<open>Properties of the head window\<close>

lemma wrap64_id: "- (2 ^ 63) \<le> x \<Longrightarrow> x < 2 ^ 63 \<Longrightarrow> wrap64 x = x"
  by (simp add: wrap64_def)

lemma window_offset:
  assumes "1 \<le> t" and "t < 2 ^ 63" and "int (length w) < 2 ^ 63"
  shows "wrap64 (wrap64 (int (length w) - t) + 1) = int (length w) - t + 1"
proof -
  have "wrap64 (int (length w) - t) = int (length w) - t"
    using assms by (intro wrap64_id) simp_all
  moreover have "wrap64 (int (length w) - t + 1) = int (length w) - t + 1"
    using assms by (intro wrap64_id) simp_all
  ultimately show ?thesis by simp
qed

text \<open>
  Claim C10. For a window \<open>w\<close> and a threshold \<open>t \<ge> 1\<close> (both within the range of Go's
  \<^verbatim>\<open>int\<close>), \<open>appendCIDsToWindow w c t\<close> returns a window of length
  \<open>min (length w + 1) t\<close>, whose last element is the new head \<open>c\<close> and whose other elements
  are the most recent entries of \<open>w\<close>, in order; so it is a suffix of \<open>w\<close> followed by \<open>c\<close>
  and never longer than the threshold.
\<close>

theorem appendCIDsToWindow_window:
  assumes "1 \<le> t" and "t < 2 ^ 63" and "int (length w) < 2 ^ 63"
  shows "\<exists>r. appendCIDsToWindow w c t = Inr r
           \<and> length r = min (length w + 1) (nat t)
           \<and> last r = c
           \<and> butlast r = drop (length w + 1 - nat t) w
           \<and> length r \<le> nat t"
proof -
  let ?off = "int (length w) - t + 1"
  have off: "wrap64 (wrap64 (int (length w) - t) + 1) = ?off"
    using assms by (rule window_offset)
  have le: "?off \<le> int (length w)" using assms by simp
  show ?thesis
  proof (cases "?off \<ge> 0")
    case True
    then have n: "nat ?off = length w + 1 - nat t" using assms by linarith
    have "appendCIDsToWindow w c t = Inr (drop (nat ?off) w @ [c])"
      using True le by (simp add: appendCIDsToWindow_def off)
    moreover have "length (drop (nat ?off) w @ [c]) = min (length w + 1) (nat t)"
      using True assms by (simp add: n)
    ultimately show ?thesis using n by simp
  next
    case False
    then have lt: "length w + 1 < nat t" using assms by linarith
    have "appendCIDsToWindow w c t = Inr (w @ [c])"
      using False by (simp add: appendCIDsToWindow_def off)
    then show ?thesis using lt by simp
  qed
qed

theorem appendCIDsToWindow_window_witness:
  "\<exists>r. appendCIDsToWindow [1, 2, 3 :: nat] 4 3 = Inr r
     \<and> length r = min (length [1, 2, 3 :: nat] + 1) (nat 3)
     \<and> last r = 4
     \<and> butlast r = drop (length [1, 2, 3 :: nat] + 1 - nat 3) [1, 2, 3]
     \<and> length r \<le> nat 3"
  using appendCIDsToWindow_window [of 3 "[1, 2, 3 :: nat]" 4] by simp


section \<open>Sequencing\<close>

lemma andThen_Inr:
  "andThen m f s = (Inr y, t) \<longleftrightarrow> (\<exists>x s'. m s = (Inr x, s') \<and> f x s' = (Inr y, t))"
  by (auto simp: andThen_def split: prod.splits sum.splits)

lemma wrapE_Inr: "wrapE msg m s = (Inr x, t) \<longleftrightarrow> m s = (Inr x, t)"
  by (auto simp: wrapE_def split: prod.splits sum.splits)

lemma liftE_eq: "liftE r s = (r', t) \<longleftrightarrow> r' = r \<and> t = s"
  by (auto simp: liftE_def)

lemma ok_eq: "ok x s = (r, t) \<longleftrightarrow> r = Inr x \<and> t = s"
  by (auto simp: ok_def)

lemma on_bstore_eq:
  "on_bstore m h = (r, h') \<longleftrightarrow> (\<exists>b. m (bstore h) = (r, b) \<and> h' = h\<lparr>bstore := b\<rparr>)"
  by (auto simp: on_bstore_def split: prod.splits)

lemma cst_Put_Inr:
  "cst_Put x bs = (Inr c, bs') \<longleftrightarrow>
     \<not> refuses bs x \<and> c = CidOf x \<and> bs' = bs\<lparr>blocks := insert x (blocks bs)\<rparr>"
  by (auto simp: cst_Put_def)

lemma set_ids_Inr:
  "\<exists>m. set_ids as i amap = Inr m
       \<and> dom m = dom amap \<union> set as
       \<and> (\<forall>a. a \<notin> set as \<longrightarrow> m a = amap a)
       \<and> (distinct as \<longrightarrow> (\<forall>k<length as. m (as ! k) = Some (100 + word_of_nat (i + k))))"
proof (induction as arbitrary: i amap)
  case Nil
  then show ?case by simp
next
  case (Cons a as)
  obtain m where m: "set_ids as (Suc i) (amap(a \<mapsto> 100 + word_of_nat i)) = Inr m"
    "dom m = dom (amap(a \<mapsto> 100 + word_of_nat i)) \<union> set as"
    "\<forall>b. b \<notin> set as \<longrightarrow> m b = (amap(a \<mapsto> 100 + word_of_nat i)) b"
    "distinct as \<longrightarrow> (\<forall>k<length as. m (as ! k) = Some (100 + word_of_nat (Suc i + k)))"
    using Cons.IH [of "Suc i" "amap(a \<mapsto> 100 + word_of_nat i)"] by blast
  have 1: "set_ids (a # as) i amap = Inr m"
    using m(1) by (simp add: hamt_Set_def)
  have 2: "dom m = dom amap \<union> set (a # as)" using m(2) by auto
  have 3: "\<forall>b. b \<notin> set (a # as) \<longrightarrow> m b = amap b" using m(3) by auto
  have 4: "distinct (a # as) \<longrightarrow>
             (\<forall>k<length (a # as). m ((a # as) ! k) = Some (100 + word_of_nat (i + k)))"
  proof (intro impI allI)
    fix k assume d: "distinct (a # as)" and k: "k < length (a # as)"
    show "m ((a # as) ! k) = Some (100 + word_of_nat (i + k))"
    proof (cases k)
      case 0
      then show ?thesis using d m(3) by simp
    next
      case (Suc j)
      then show ?thesis using d k m(4) by simp
    qed
  qed
  show ?case using 1 2 3 4 by blast
qed

lemma id_unat:
  assumes "n < 2 ^ 63"
  shows "unat (100 + word_of_nat n :: u64) = 100 + n"
proof -
  have "100 + n < 2 ^ 64" using assms by simp
  then have "unat (word_of_nat (100 + n) :: u64) = 100 + n"
    by (simp add: unat_of_nat del: of_nat_add)
  then show ?thesis by simp
qed

section \<open>The init actor\<close>

text \<open>
  Claim C3, amended. For every list of pairwise different pre-funded addresses (of a
  length that a Go slice can have), the init actor that \<open>SetupInitActor\<close> returns has a
  state whose address map, stored in the blockstore, has exactly the input addresses as
  keys and gives the address at position \<open>k\<close> the id \<open>100 + k\<close>, so that different
  addresses have different ids, and whose \<open>NextID\<close> is 100 plus the number of addresses.
\<close>

theorem SetupInitActor_ids:
  assumes "distinct addrs" and "length addrs < 2 ^ 63"
    and "SetupInitActor addrs bs = (Inr act, bs')"
  shows "\<exists>amap NextID.
           act = Actor InitActorCodeCid
                   (CidOf (InitActorStateObj NextID (CidOf (HamtNode amap)))) 0 0
         \<and> HamtNode amap \<in> blocks bs'
         \<and> InitActorStateObj NextID (CidOf (HamtNode amap)) \<in> blocks bs'
         \<and> dom amap = set addrs
         \<and> (\<forall>k<length addrs. \<exists>n. amap (addrs ! k) = Some n \<and> unat n = 100 + k)
         \<and> inj_on amap (set addrs)
         \<and> unat NextID = 100 + length addrs"
proof -
  obtain amap where amap: "set_ids addrs 0 hamt_NewNode = Inr amap"
    "dom amap = dom hamt_NewNode \<union> set addrs"
    "\<forall>k<length addrs. amap (addrs ! k) = Some (100 + word_of_nat (0 + k))"
    using set_ids_Inr [of addrs 0 hamt_NewNode] assms(1) by blast
  let ?N = "100 + word_of_nat (length addrs) :: u64"
  have run: "act = Actor InitActorCodeCid (CidOf (InitActorStateObj ?N (CidOf (HamtNode amap)))) 0 0"
    "HamtNode amap \<in> blocks bs'"
    "InitActorStateObj ?N (CidOf (HamtNode amap)) \<in> blocks bs'"
    using assms(3) amap(1)
    by (auto simp: SetupInitActor_def andThen_Inr liftE_eq ok_eq hamt_Flush_def cst_Put_Inr Let_def)
  have ids: "\<forall>k<length addrs. \<exists>n. amap (addrs ! k) = Some n \<and> unat n = 100 + k"
  proof (intro allI impI)
    fix k assume k: "k < length addrs"
    then have "k < 2 ^ 63" using assms(2) by simp
    then have "unat (100 + word_of_nat k :: u64) = 100 + k" by (rule id_unat)
    then show "\<exists>n. amap (addrs ! k) = Some n \<and> unat n = 100 + k"
      using amap(3) k by simp
  qed
  have inj: "inj_on amap (set addrs)"
  proof (rule inj_onI)
    fix x y assume x: "x \<in> set addrs" and y: "y \<in> set addrs" and e: "amap x = amap y"
    obtain i j where i: "i < length addrs" "x = addrs ! i" and j: "j < length addrs" "y = addrs ! j"
      using x y by (metis in_set_conv_nth)
    obtain n where n: "amap x = Some n" "unat n = 100 + i" using ids i by blast
    obtain n' where n': "amap y = Some n'" "unat n' = 100 + j" using ids j by blast
    have "i = j" using n n' e by simp
    then show "x = y" using i j by simp
  qed
  have "unat ?N = 100 + length addrs" using assms(2) by (rule id_unat)
  then show ?thesis using run amap(2) ids inj by (auto simp: hamt_NewNode_def)
qed

theorem SetupInitActor_ids_witness:
  "\<exists>amap NextID.
      fst (SetupInitActor [Address ''a'', Address ''b''] mem_bstore)
        = Inr (Actor InitActorCodeCid
                 (CidOf (InitActorStateObj NextID (CidOf (HamtNode amap)))) 0 0)
      \<and> dom amap = {Address ''a'', Address ''b''}
      \<and> unat NextID = 102"
proof -
  obtain act bs' where r: "SetupInitActor [Address ''a'', Address ''b''] mem_bstore = (Inr act, bs')"
    by (simp add: SetupInitActor_def andThen_def liftE_def ok_def hamt_Flush_def cst_Put_def
        hamt_Set_def hamt_NewNode_def mem_bstore_def)
  have d: "distinct [Address ''a'', Address ''b'']" by simp
  have l: "length [Address ''a'', Address ''b''] < 2 ^ 63" by simp
  show ?thesis using SetupInitActor_ids [OF d l r] r by (auto simp: insert_commute)
qed

text \<open>
  As the claim C3 is stated, for every list, it fails for a list that names an address
  twice: the later index replaces the earlier one, so that for the input \<open>[a, a]\<close> the map
  has the single entry of \<open>a\<close> with the id 101 and no entry with the id 100, while \<open>NextID\<close>
  is 102.
\<close>

theorem SetupInitActor_duplicate_address:
  "fst (SetupInitActor [Address ''a'', Address ''a''] mem_bstore) =
     Inr (Actor InitActorCodeCid
            (CidOf (InitActorStateObj 102 (CidOf (HamtNode (Map.empty(Address ''a'' \<mapsto> 101))))))
            0 0)"
  by (simp add: SetupInitActor_def andThen_def liftE_def ok_def hamt_Flush_def cst_Put_def
        hamt_Set_def hamt_NewNode_def mem_bstore_def)


section \<open>The initial state tree\<close>

lemma set_accounts_Inr:
  "\<exists>st'. set_accounts eo r st = Inr st'
        \<and> (\<forall>a. a \<notin> fst ` set r \<longrightarrow> st' a = st a)
        \<and> (distinct (map fst r) \<longrightarrow>
             (\<forall>a v. (a, v) \<in> set r \<longrightarrow> st' a = Some (Actor AccountActorCodeCid eo 0 v)))"
proof (induction r arbitrary: st)
  case Nil
  then show ?case by simp
next
  case (Cons p r)
  obtain a v where p: "p = (a, v)" by (cases p)
  let ?st = "st(a \<mapsto> Actor AccountActorCodeCid eo 0 v)"
  obtain st' where st': "set_accounts eo r ?st = Inr st'"
    "\<forall>b. b \<notin> fst ` set r \<longrightarrow> st' b = ?st b"
    "distinct (map fst r) \<longrightarrow>
       (\<forall>b w. (b, w) \<in> set r \<longrightarrow> st' b = Some (Actor AccountActorCodeCid eo 0 w))"
    using Cons.IH [of ?st] by blast
  have 1: "set_accounts eo (p # r) st = Inr st'"
    using st'(1) by (simp add: p SetActor_def)
  have 2: "\<forall>b. b \<notin> fst ` set (p # r) \<longrightarrow> st' b = st b"
    using st'(2) by (auto simp: p)
  have 3: "distinct (map fst (p # r)) \<longrightarrow>
       (\<forall>b w. (b, w) \<in> set (p # r) \<longrightarrow> st' b = Some (Actor AccountActorCodeCid eo 0 w))"
    using st'(2,3) by (auto simp: p)
  show ?case using 1 2 3 by blast
qed

lemma fold_BigSub: "fold (\<lambda>(a, amt) n. BigSub n amt) r t = t - sum_list (map snd r)"
  by (induction r arbitrary: t) (auto simp: BigSub_def)

lemma sum_map_of:
  "distinct (map fst r) \<Longrightarrow> (\<Sum>a\<in>fst ` set r. the (map_of r a)) = sum_list (map snd r)"
proof (induction r)
  case Nil
  then show ?case by simp
next
  case (Cons p r)
  obtain a v where p: "p = (a, v)" by (cases p)
  have a: "a \<notin> fst ` set r" and d: "distinct (map fst r)"
    using Cons.prems by (auto simp: p)
  have "(\<Sum>b\<in>fst ` set r. the (map_of (p # r) b)) = (\<Sum>b\<in>fst ` set r. the (map_of r b))"
    using a by (intro sum.cong) (auto simp: p)
  then show ?case using a d Cons.IH by (simp add: p)
qed

lemma range_of_sum:
  assumes "range_of m r"
  shows "sum_list (map snd r) = (\<Sum>a\<in>dom m. the (m a))"
  using assms sum_map_of [of r] by (auto simp: range_of_def dom_map_of_conv_image_fst)

lemma range_of_dom: "range_of m r \<Longrightarrow> dom m = fst ` set r"
  by (force simp: range_of_def dom_map_of_conv_image_fst)

lemma range_of_lookup: "range_of m r \<Longrightarrow> m a = Some v \<Longrightarrow> (a, v) \<in> set r"
  by (auto simp: range_of_def dest: map_of_SomeD)


text \<open>Unfolding every operation runs the construction on a concrete input.\<close>

lemmas run_defs = MakeGenesisBlock_def MakeInitialStateTree_def SetupInitActor_def
  SetupStorageMarketActor_def SetupStorageMiners_def setupMiner_def doExec_def
  andThen_def wrapE_def liftE_def ok_def fail_def on_bstore_def index_def
  cst_Put_def cst_Get_def bs_Put_def ToStorageBlock_def hamt_NewNode_def hamt_Set_def
  hamt_Flush_def NewStateTree_def SetActor_def GetActor_def StateTree_Flush_def
  sharray_Build_def NewVM_def vm_Flush_def cst_Get_mstate_def mustEnc_def
  NewInt_def BigSub_def Let_def

lemmas sample_defs = sample_env_def mem_bstore_def sample_heap_def sample_cfg_def
  sample_apply_def sample_balances_def sample_tree_def sample_tree_heap_def







text \<open>
  The second and the third loop over the balances give the same result in any order: the
  order matters only in the first loop.
\<close>

lemma set_accounts_range:
  assumes "range_of m r"
  shows "set_accounts eo r st =
           Inr (\<lambda>a. case m a of None \<Rightarrow> st a
                     | Some v \<Rightarrow> Some (Actor AccountActorCodeCid eo 0 v))"
proof -
  have d: "distinct (map fst r)" using assms by (simp add: range_of_def)
  obtain st' where st': "set_accounts eo r st = Inr st'"
    "\<forall>a. a \<notin> fst ` set r \<longrightarrow> st' a = st a"
    "\<forall>a v. (a, v) \<in> set r \<longrightarrow> st' a = Some (Actor AccountActorCodeCid eo 0 v)"
    using set_accounts_Inr [of eo r st] d by blast
  have "st' a = (case m a of None \<Rightarrow> st a | Some v \<Rightarrow> Some (Actor AccountActorCodeCid eo 0 v))"
    for a
  proof (cases "m a")
    case None
    then have "a \<notin> fst ` set r" using range_of_dom [OF assms] by blast
    then show ?thesis using st'(2) None by simp
  next
    case (Some v)
    then have "(a, v) \<in> set r" using assms by (rule range_of_lookup [rotated])
    then show ?thesis using st'(3) Some by simp
  qed
  then show ?thesis using st'(1) by auto
qed

lemma later_loops_commute:
  assumes "range_of m r2" and "range_of m r2'" and "range_of m r3" and "range_of m r3'"
  shows "MakeInitialStateTree E r1 r2 r3 = MakeInitialStateTree E r1 r2' r3'"
  unfolding MakeInitialStateTree_def fold_BigSub
    range_of_sum [OF assms(1)] range_of_sum [OF assms(2)]
    set_accounts_range [OF assms(3)] set_accounts_range [OF assms(4)] ..

lemma genesis_later_loops_commute:
  assumes "range_of m r2" and "range_of m r2'" and "range_of m r3" and "range_of m r3'"
  shows "MakeGenesisBlock E r1 r2 r3 ts = MakeGenesisBlock E r1 r2' r3' ts"
  unfolding MakeGenesisBlock_def later_loops_commute [OF assms, of E r1] ..

text \<open>
  Claim C1 says that two runs on the same input give the same state root and the same
  genesis block. The ids of the init actor follow the order in which the first loop of
  \<open>MakeInitialStateTree\<close> visits the Go map of the balances, and that order is not fixed:
  for the balances of \<open>A\<close> and \<open>B\<close>, the run that visits \<open>A\<close> first gives \<open>A\<close> the id 100
  and the run that visits \<open>B\<close> first gives it 101, so the two genesis blocks have different
  state roots.
\<close>

theorem genesis_depends_on_iteration_order:
  "map_of [(Address ''A'', 1 :: int), (Address ''B'', 2)]
     = map_of [(Address ''B'', 2), (Address ''A'', 1)]
   \<and> fst (MakeGenesisBlock sample_env [(Address ''A'', 1), (Address ''B'', 2)]
          [(Address ''A'', 1), (Address ''B'', 2)] [(Address ''A'', 1), (Address ''B'', 2)]
          7 sample_heap)
   \<noteq> fst (MakeGenesisBlock sample_env [(Address ''B'', 2), (Address ''A'', 1)]
          [(Address ''A'', 1), (Address ''B'', 2)] [(Address ''A'', 1), (Address ''B'', 2)]
          7 sample_heap)"
  (is "?m \<and> ?l \<noteq> ?r")
proof
  show ?m by (auto simp: fun_eq_iff)
next
  let ?id = "\<lambda>r :: error + GenesisBootstrap. case r of
      Inr g \<Rightarrow> (case StateRoot (Genesis g) of
         CidOf (StateTreeObj st) \<Rightarrow> (case st InitActorAddress of
            Some act \<Rightarrow> (case Head act of
               CidOf (InitActorStateObj n (CidOf (HamtNode amap))) \<Rightarrow> amap (Address ''A'')
             | _ \<Rightarrow> None)
          | None \<Rightarrow> None)
       | _ \<Rightarrow> None)
    | Inl e \<Rightarrow> None"
  have l: "?id ?l = Some 100"
    by (simp add: run_defs sample_defs miners_loop.simps [of _ 0]
        miners_loop.simps [of _ "Suc 0"])
  have r: "?id ?r = Some 101"
    by (simp add: run_defs sample_defs miners_loop.simps [of _ 0]
        miners_loop.simps [of _ "Suc 0"])
  show "?l \<noteq> ?r"
  proof
    assume "?l = ?r"
    then have "?id ?l = ?id ?r" by (rule arg_cong)
    then show False unfolding l r by simp
  qed
qed


section \<open>The loop over the miners\<close>

lemma miners_loop_done:
  "\<not> i < length (Workers (gmcfg h)) \<Longrightarrow> miners_loop E i v h = (Inr v, h)"
  by (simp add: miners_loop.simps)

lemma miners_loop_step:
  "i < length (Workers (gmcfg h)) \<Longrightarrow> setupMiner E i v h = (Inr v', h')
     \<Longrightarrow> miners_loop E i v h = miners_loop E (Suc i) v' h'"
  by (simp add: miners_loop.simps)

lemma miners_loop_fail:
  "i < length (Workers (gmcfg h)) \<Longrightarrow> setupMiner E i v h = (Inl e, h')
     \<Longrightarrow> miners_loop E i v h = (Inl e, h')"
  by (simp add: miners_loop.simps)

lemma doExec_bstore: "doExec E v to from method params bs = (r, bs') \<Longrightarrow> bs' = bs"
  by (auto simp: doExec_def andThen_def wrapE_def liftE_def ok_def fail_def
      split: prod.splits sum.splits if_splits)

lemma doExec_fst:
  "doExec E v to from method params bs = (r, bs') \<longleftrightarrow>
     fst (doExec E v to from method params bs) = r \<and> bs' = bs"
  by (cases "doExec E v to from method params bs") (auto dest: doExec_bstore)

lemma doExec_Inr:
  "doExec E v to from method params bs = (Inr (rval, v'), bs') \<longleftrightarrow>
     bs' = bs \<and>
     (\<exists>act ret. GetActor (cstate v) from = Inr act
        \<and> ApplyMessage E v (blocks bs)
             \<lparr>To = to, From = from, Method = method, Params = params,
              GasLimit = NewInt 1000000, GasPrice = NewInt 0, Value = NewInt 0,
              MsgNonce = Nonce act\<rparr> = Inr (ret, v')
        \<and> ExitCode ret = 0 \<and> rval = Return ret)"
  by (auto simp: doExec_def andThen_def wrapE_def liftE_def ok_def fail_def
      split: prod.splits sum.splits if_splits)

lemma doExec_nonzero:
  assumes "GetActor (cstate v) from = Inr act"
    and "ApplyMessage E v (blocks bs)
             \<lparr>To = to, From = from, Method = method, Params = params,
              GasLimit = NewInt 1000000, GasPrice = NewInt 0, Value = NewInt 0,
              MsgNonce = Nonce act\<rparr> = Inr (ret, v')"
    and "ExitCode ret \<noteq> 0"
  shows "doExec E v to from method params bs = (Inl (CallFailed (ActorErr ret)), bs)"
  using assms by (simp add: doExec_def andThen_def wrapE_def liftE_def fail_def)

lemma vm_Flush_Inr:
  "vm_Flush v bs = (Inr c, bs') \<longleftrightarrow>
     \<not> refuses bs (StateTreeObj (cstate v)) \<and> c = CidOf (StateTreeObj (cstate v))
     \<and> bs' = bs\<lparr>blocks := insert (StateTreeObj (cstate v)) (blocks bs \<union> buffered v)\<rparr>"
  by (auto simp: vm_Flush_def cst_Put_def)

lemma cst_Get_Inr:
  "cst_Get c bs = (Inr x, bs') \<longleftrightarrow> c = CidOf x \<and> x \<in> blocks bs \<and> bs' = bs"
  by (auto simp: cst_Get_def split: cid.splits)

lemma cst_Get_mstate_Inr:
  "cst_Get_mstate c bs = (Inr mstate, bs') \<longleftrightarrow>
     c = CidOf (StorageMinerActorStateObj mstate)
     \<and> StorageMinerActorStateObj mstate \<in> blocks bs \<and> bs' = bs"
  by (cases c; cases "case c of CidOf x \<Rightarrow> x | _ \<Rightarrow> EmptyObject")
    (auto simp: cst_Get_mstate_def andThen_def cst_Get_def ok_def fail_def)

lemma liftE_Inr: "liftE r s = (Inr x, t) \<longleftrightarrow> r = Inr x \<and> t = s"
  by (auto simp: liftE_def)

lemma GetActor_Inr: "GetActor st a = Inr act \<longleftrightarrow> st a = Some act"
  by (auto simp: GetActor_def split: option.splits)

lemma setupMiner_Inr:
  assumes "setupMiner E i v h = (Inr v', h')"
  shows "\<exists>owner worker pid params rval v1 maddr params2 r2 v2 mact mstate.
      index (Owners (gmcfg h)) i = Inr owner
    \<and> index (Workers (gmcfg h)) i = Inr worker
    \<and> index (PeerIDs (gmcfg h)) i = Inr pid
    \<and> mustEnc E (CreateStorageMinerParams owner worker (NewInt (SectorSize E)) pid) = Inr params
    \<and> fst (doExec E v StorageMarketAddress owner (CreateStorageMiner E) params (bstore h))
        = Inr (rval, v1)
    \<and> NewFromBytes E rval = Inr maddr
    \<and> mustEnc E (UpdateStorageParams (NewInt 5000)) = Inr params2
    \<and> fst (doExec E v1 StorageMarketAddress maddr (UpdateStorage E) params2 (bstore h))
        = Inr (r2, v2)
    \<and> cstate v2 maddr = Some mact
    \<and> Head mact = CidOf (StorageMinerActorStateObj mstate)
    \<and> v' = v2\<lparr>cstate := (cstate v2)(maddr \<mapsto>
              Actor (Code mact) (CidOf (StorageMinerActorStateObj (mstate\<lparr>Power := 5000\<rparr>)))
                (Nonce mact) (Balance mact))\<rparr>
    \<and> gmcfg h' = (gmcfg h)\<lparr>MinerAddrs := MinerAddrs (gmcfg h) @ [maddr]\<rparr>
    \<and> refuses (bstore h') = refuses (bstore h)
    \<and> blocks (bstore h') =
         insert (StorageMinerActorStateObj (mstate\<lparr>Power := 5000\<rparr>))
           (insert (StateTreeObj (cstate v2)) (blocks (bstore h) \<union> buffered v2))"
proof -
  from assms obtain owner where o: "index (Owners (gmcfg h)) i = Inr owner"
    by (auto simp: setupMiner_def andThen_Inr)
  from assms obtain worker where w: "index (Workers (gmcfg h)) i = Inr worker"
    by (auto simp: setupMiner_def andThen_Inr)
  from assms obtain pid where p: "index (PeerIDs (gmcfg h)) i = Inr pid"
    by (auto simp: setupMiner_def andThen_Inr)
  show ?thesis
    using assms unfolding setupMiner_def
    apply (simp add: o w p andThen_Inr wrapE_Inr liftE_Inr ok_eq on_bstore_eq Let_def
        split_paired_Ex)
    apply (elim exE conjE)
    apply (simp add: vm_Flush_Inr cst_Get_mstate_Inr cst_Put_Inr GetActor_Inr SetActor_def
        NewInt_def doExec_fst)
    done
qed


lemma doExec_applied:
  assumes "fst (doExec E v to from method params bs) = Inr (rval, v')"
  shows "\<exists>msg ret. ApplyMessage E v (blocks bs) msg = Inr (ret, v')"
proof -
  have "doExec E v to from method params bs = (Inr (rval, v'), bs)"
    using assms by (simp add: doExec_fst)
  then show ?thesis unfolding doExec_Inr by blast
qed

lemma reached_loop:
  "reached E v0 h0 i v h \<Longrightarrow> miners_loop E 0 v0 h0 = miners_loop E i v h"
proof (induction rule: reached.induct)
  case start
  show ?case ..
next
  case (step i v h v' h')
  show ?case using step.IH miners_loop_step [OF step.hyps(2,3)] by simp
qed




lemma NewVM_Inr:
  "NewVM sroot bs = (Inr v, bs') \<longleftrightarrow>
     (\<exists>st. sroot = CidOf (StateTreeObj st) \<and> StateTreeObj st \<in> blocks bs
        \<and> v = \<lparr>cstate = st, buffered = {}\<rparr>) \<and> bs' = bs"
proof (cases sroot)
  case (CidOf x)
  then show ?thesis
    by (cases x) (auto simp: NewVM_def andThen_def cst_Get_def ok_def fail_def)
qed (auto simp: NewVM_def andThen_def cst_Get_def)

lemma SetupStorageMiners_Inr:
  assumes "SetupStorageMiners E sroot h = (Inr root, h')"
  shows "\<exists>st v' h1. sroot = CidOf (StateTreeObj st) \<and> StateTreeObj st \<in> blocks (bstore h)
      \<and> miners_loop E 0 \<lparr>cstate = st, buffered = {}\<rparr> h = (Inr v', h1)
      \<and> root = CidOf (StateTreeObj (cstate v'))
      \<and> h' = h1\<lparr>bstore := (bstore h1)\<lparr>blocks :=
                 insert (StateTreeObj (cstate v')) (blocks (bstore h1) \<union> buffered v')\<rparr>\<rparr>"
  using assms
  by (auto simp: SetupStorageMiners_def andThen_Inr wrapE_Inr on_bstore_eq NewVM_Inr
      vm_Flush_Inr)







section \<open>The genesis block\<close>

lemma bs_Put_Inr:
  "bs_Put x bs = (Inr u, bs') \<longleftrightarrow>
     \<not> refuses bs x \<and> bs' = bs\<lparr>blocks := insert x (blocks bs)\<rparr>"
  by (auto simp: bs_Put_def andThen_Inr cst_Put_Inr ok_eq)

text \<open>
  Claim C9. When \<open>MakeGenesisBlock\<close> succeeds, the initial state tree was built and
  flushed and \<open>SetupStorageMiners\<close> returned a root, the identifier of a state tree in the
  blockstore. The header returned has the height 0, no parents, the parent weight 0, the
  timestamp of the caller and that root as its state root; its messages are the message
  meta of two empty arrays and its receipts the empty array. The assembly adds exactly
  three objects to the blockstore that the miners left: the empty array, the message meta
  and this one header.
\<close>

theorem genesis_header:
  assumes "MakeGenesisBlock E r1 r2 r3 ts h = (Inr g, h')"
  shows "\<exists>state b1 sroot b2 root h3 st.
           MakeInitialStateTree E r1 r2 r3 (bstore h) = (Inr state, b1)
         \<and> StateTree_Flush state b1 = (Inr sroot, b2)
         \<and> SetupStorageMiners E sroot (h\<lparr>bstore := b2\<rparr>) = (Inr root, h3)
         \<and> root = CidOf (StateTreeObj st) \<and> StateTreeObj st \<in> blocks (bstore h3)
         \<and> Height (Genesis g) = 0
         \<and> Parents (Genesis g) = []
         \<and> ParentWeight (Genesis g) = 0
         \<and> Timestamp (Genesis g) = ts
         \<and> StateRoot (Genesis g) = root
         \<and> Messages (Genesis g) =
              CidOf (MsgMetaObj (CidOf (SharrayObj 4 [])) (CidOf (SharrayObj 4 [])))
         \<and> MessageReceipts (Genesis g) = CidOf (SharrayObj 4 [])
         \<and> Miner (Genesis g) = InitActorAddress
         \<and> gmcfg h' = gmcfg h3
         \<and> blocks (bstore h') =
              insert (BlockHeaderObj (Genesis g))
                (insert (MsgMetaObj (CidOf (SharrayObj 4 [])) (CidOf (SharrayObj 4 [])))
                  (insert (SharrayObj 4 []) (blocks (bstore h3))))"
proof -
  have root: "\<exists>st. root = CidOf (StateTreeObj st) \<and> StateTreeObj st \<in> blocks (bstore h3)"
    if "SetupStorageMiners E sroot h2 = (Inr root, h3)" for sroot h2 root h3
    using SetupStorageMiners_Inr [OF that] by auto
  show ?thesis
    using assms
    by (auto simp: MakeGenesisBlock_def andThen_Inr wrapE_Inr on_bstore_eq liftE_Inr ok_eq
        bs_Put_Inr cst_Put_Inr sharray_Build_def ToStorageBlock_def Let_def NewInt_def
        dest: root)
qed

theorem genesis_header_witness:
  "\<exists>g. fst (MakeGenesisBlock sample_env sample_balances sample_balances sample_balances 7
              sample_heap) = Inr g
     \<and> Height (Genesis g) = 0 \<and> Parents (Genesis g) = [] \<and> ParentWeight (Genesis g) = 0
     \<and> Timestamp (Genesis g) = 7
     \<and> BlockHeaderObj (Genesis g)
          \<in> blocks (bstore (snd (MakeGenesisBlock sample_env sample_balances sample_balances
                 sample_balances 7 sample_heap)))"
proof -
  obtain g h' where run:
    "MakeGenesisBlock sample_env sample_balances sample_balances sample_balances 7 sample_heap
       = (Inr g, h')"
    by atomize_elim
      (simp add: run_defs sample_defs miners_loop.simps [of _ 0] miners_loop.simps [of _ "Suc 0"])
  show ?thesis using genesis_header [OF run] run by auto
qed

section \<open>The miner configuration\<close>

lemma setupMiner_cfg:
  assumes "setupMiner E i v h = (r, h')"
  shows "Owners (gmcfg h') = Owners (gmcfg h) \<and> Workers (gmcfg h') = Workers (gmcfg h)
       \<and> PeerIDs (gmcfg h') = PeerIDs (gmcfg h)
       \<and> (MinerAddrs (gmcfg h') = MinerAddrs (gmcfg h)
            \<or> (\<exists>maddr. MinerAddrs (gmcfg h') = MinerAddrs (gmcfg h) @ [maddr]))"
  using assms
  by (auto simp: setupMiner_def andThen_def wrapE_def on_bstore_def liftE_def ok_def
      fail_def Let_def split: prod.splits sum.splits if_splits)







section \<open>Lists of different lengths\<close>

lemma index_take: "i < n \<Longrightarrow> index (take n xs) i = index xs i"
  by (auto simp: index_def)

lemma andThen_commute:
  assumes "m (p h) = apsnd p (m h)" and "\<And>x s. m h = (Inr x, s) \<Longrightarrow> f x (p s) = apsnd p (f x s)"
  shows "andThen m f (p h) = apsnd p (andThen m f h)"
  using assms by (auto simp: andThen_def split: prod.splits sum.splits)

lemma wrapE_commute:
  assumes "m (p h) = apsnd p (m h)"
  shows "wrapE msg m (p h) = apsnd p (wrapE msg m h)"
  using assms by (auto simp: wrapE_def split: prod.splits sum.splits)

lemma on_bstore_cut: "on_bstore m (cut_cfg n h) = apsnd (cut_cfg n) (on_bstore m h)"
  by (auto simp: on_bstore_def cut_cfg_def split: prod.splits)

lemma on_bstore_gmcfg: "on_bstore m h = (r, h') \<Longrightarrow> gmcfg h' = gmcfg h"
  by (auto simp: on_bstore_def split: prod.splits)

lemma liftE_commute: "liftE r (p h) = apsnd p (liftE r h)"
  by (simp add: liftE_def)

lemma ok_commute: "ok x (p h) = apsnd p (ok x h)"
  by (simp add: ok_def)

lemma append_cut:
  "(Inr (), (cut_cfg n h)\<lparr>gmcfg := (gmcfg (cut_cfg n h))
       \<lparr>MinerAddrs := MinerAddrs (gmcfg (cut_cfg n h)) @ [maddr]\<rparr>\<rparr>)
   = apsnd (cut_cfg n)
       (Inr (), h\<lparr>gmcfg := (gmcfg h)\<lparr>MinerAddrs := MinerAddrs (gmcfg h) @ [maddr]\<rparr>\<rparr>)"
  by (simp add: cut_cfg_def)

lemma read_cut:
  assumes "i < n"
  shows "(index (Owners (gmcfg (cut_cfg n h))) i, cut_cfg n h)
           = apsnd (cut_cfg n) (index (Owners (gmcfg h)) i, h)"
    and "(index (Workers (gmcfg (cut_cfg n h))) i, cut_cfg n h)
           = apsnd (cut_cfg n) (index (Workers (gmcfg h)) i, h)"
    and "(index (PeerIDs (gmcfg (cut_cfg n h))) i, cut_cfg n h)
           = apsnd (cut_cfg n) (index (PeerIDs (gmcfg h)) i, h)"
  using assms by (simp_all add: cut_cfg_def index_take)

lemmas cut_rules = andThen_commute [where p = "cut_cfg n"] wrapE_commute [where p = "cut_cfg n"]
  on_bstore_cut [where n = n] liftE_commute [where p = "cut_cfg n"]
  ok_commute [where p = "cut_cfg n"] append_cut [where n = n] for n

lemma setupMiner_cut:
  assumes "i < n"
  shows "setupMiner E i v (cut_cfg n h) = apsnd (cut_cfg n) (setupMiner E i v h)"
  unfolding setupMiner_def Let_def case_prod_beta
  by (intro cut_rules read_cut [OF assms])

lemma miners_loop_cut:
  "length (Workers (gmcfg h)) = n \<Longrightarrow>
     miners_loop E i v (cut_cfg n h) = apsnd (cut_cfg n) (miners_loop E i v h)"
proof (induction E i v h rule: miners_loop.induct)
  case (1 E i v h)
  have w: "Workers (gmcfg (cut_cfg n h)) = Workers (gmcfg h)" by (simp add: cut_cfg_def)
  show ?case
  proof (cases "i < length (Workers (gmcfg h))")
    case True
    then have i: "i < n" using "1.prems" by simp
    obtain r1 h1 where s: "setupMiner E i v h = (r1, h1)" by (cases "setupMiner E i v h")
    then have sc: "setupMiner E i v (cut_cfg n h) = (r1, cut_cfg n h1)"
      using setupMiner_cut [OF i, of E v h] by simp
    have True': "i < length (Workers (gmcfg (cut_cfg n h)))" using True w by simp
    show ?thesis
    proof (cases r1)
      case (Inl e)
      then show ?thesis
        using miners_loop_fail [OF True, of E v e h1] miners_loop_fail [OF True', of E v e "cut_cfg n h1"]
          s sc by simp
    next
      case (Inr v1)
      have "length (Workers (gmcfg h1)) = n" using setupMiner_cfg [OF s] "1.prems" by simp
      then have "miners_loop E (Suc i) v1 (cut_cfg n h1)
                   = apsnd (cut_cfg n) (miners_loop E (Suc i) v1 h1)"
        using "1.IH" [OF True _ refl, of v1 h1] s Inr by simp
      then show ?thesis
        using miners_loop_step [OF True, of E v v1 h1]
          miners_loop_step [OF True', of E v v1 "cut_cfg n h1"] s sc Inr by simp
    qed
  next
    case False
    then show ?thesis
      using miners_loop_done [of i h E v] miners_loop_done [of i "cut_cfg n h" E v] w by simp
  qed
qed

lemma SetupStorageMiners_cut:
  assumes "length (Workers (gmcfg h)) = n"
  shows "SetupStorageMiners E sroot (cut_cfg n h) = apsnd (cut_cfg n) (SetupStorageMiners E sroot h)"
  unfolding SetupStorageMiners_def
proof (intro cut_rules)
  fix v0 s assume "wrapE ''failed to create NewVM'' (on_bstore (NewVM sroot)) h = (Inr v0, s)"
  then have "gmcfg s = gmcfg h" by (auto simp: wrapE_Inr dest: on_bstore_gmcfg)
  then show "miners_loop E 0 v0 (cut_cfg n s) = apsnd (cut_cfg n) (miners_loop E 0 v0 s)"
    using assms by (intro miners_loop_cut) simp
qed

text \<open>
  Claim C6, amended. The lengths of the owners, workers and peer ids are not compared and
  no configuration error exists for them. The loop runs once for each worker and reads the
  owner and the peer id of the same index, so that owners and peer ids beyond the number of
  workers are never read: construction on a configuration is construction on the
  configuration with these two lists cut to the number of workers, with the same result
  and the same effects.
\<close>

theorem surplus_entries_ignored:
  "MakeGenesisBlock E r1 r2 r3 ts (cut_cfg (length (Workers (gmcfg h))) h)
     = apsnd (cut_cfg (length (Workers (gmcfg h)))) (MakeGenesisBlock E r1 r2 r3 ts h)"
  unfolding MakeGenesisBlock_def Let_def
proof (intro cut_rules)
  fix state s sroot s'
  assume "wrapE ''make initial state tree failed''
            (on_bstore (MakeInitialStateTree E r1 r2 r3)) h = (Inr state, s)"
    and "wrapE ''flush state tree failed'' (on_bstore (StateTree_Flush state)) s = (Inr sroot, s')"
  then have "gmcfg s = gmcfg h" and "gmcfg s' = gmcfg s"
    by (auto simp: wrapE_Inr dest: on_bstore_gmcfg)
  then have "length (Workers (gmcfg s')) = length (Workers (gmcfg h))" by simp
  then show "SetupStorageMiners E sroot (cut_cfg (length (Workers (gmcfg h))) s')
      = apsnd (cut_cfg (length (Workers (gmcfg h)))) (SetupStorageMiners E sroot s')"
    by (rule SetupStorageMiners_cut)
qed

text \<open>
  As the claim C6 is stated, lists of different lengths would be reported. With two owners,
  one worker and one peer id the sample run returns a genesis block.
\<close>

theorem mismatched_lengths_accepted:
  "\<not> isl (fst (MakeGenesisBlock sample_env sample_balances sample_balances sample_balances 7
      \<lparr>bstore = mem_bstore,
       gmcfg = \<lparr>Owners = [Address ''A'', Address ''C''], Workers = [Address ''B''],
                MinerAddrs = [], PeerIDs = [''P'']\<rparr>\<rparr>))"
  by (simp add: run_defs sample_defs miners_loop.simps [of _ 0] miners_loop.simps [of _ "Suc 0"])

section \<open>A message that the engine rejects\<close>

lemma buffers_no_headerD:
  "buffers_no_header E \<Longrightarrow> ApplyMessage E v blks msg = Inr (ret, v')
     \<Longrightarrow> BlockHeaderObj b \<in> buffered v' \<Longrightarrow> BlockHeaderObj b \<in> buffered v"
  unfolding buffers_no_header_def by blast

lemma MakeInitialStateTree_headers:
  assumes "MakeInitialStateTree E r1 r2 r3 bs = (Inr st, bs')"
    and "BlockHeaderObj b \<in> blocks bs'"
  shows "BlockHeaderObj b \<in> blocks bs"
  using assms
  by (auto simp: MakeInitialStateTree_def andThen_Inr wrapE_Inr liftE_Inr ok_eq cst_Put_Inr
      NewStateTree_def SetActor_def Let_def SetupInitActor_def
      SetupStorageMarketActor_def hamt_Flush_def)

lemma setupMiner_headers:
  assumes E: "buffers_no_header E"
    and run: "setupMiner E i v h = (Inr v', h')"
    and b: "BlockHeaderObj b \<in> blocks (bstore h') \<union> buffered v'"
  shows "BlockHeaderObj b \<in> blocks (bstore h) \<union> buffered v"
proof -
  obtain owner params rval maddr params2 r2 mact mstate and v1 v2 :: vm where
    c: "fst (doExec E v StorageMarketAddress owner (CreateStorageMiner E) params (bstore h))
          = Inr (rval, v1)"
    and u: "fst (doExec E v1 StorageMarketAddress maddr (UpdateStorage E) params2 (bstore h))
          = Inr (r2, v2)"
    and v': "v' = v2\<lparr>cstate := (cstate v2)(maddr \<mapsto>
              Actor (Code mact) (CidOf (StorageMinerActorStateObj (mstate\<lparr>Power := 5000\<rparr>)))
                (Nonce mact) (Balance mact))\<rparr>"
    and bl: "blocks (bstore h') =
         insert (StorageMinerActorStateObj (mstate\<lparr>Power := 5000\<rparr>))
           (insert (StateTreeObj (cstate v2)) (blocks (bstore h) \<union> buffered v2))"
    using setupMiner_Inr [OF run]
    by atomize_elim (elim exE conjE, (rule exI conjI | assumption)+)
  obtain msg1 ret1 where a1: "ApplyMessage E v (blocks (bstore h)) msg1 = Inr (ret1, v1)"
    using doExec_applied [OF c] by blast
  obtain msg2 ret2 where a2: "ApplyMessage E v1 (blocks (bstore h)) msg2 = Inr (ret2, v2)"
    using doExec_applied [OF u] by blast
  have "BlockHeaderObj b \<in> blocks (bstore h) \<union> buffered v2"
    using b by (auto simp: v' bl)
  then show ?thesis
    using buffers_no_headerD [OF E a2] buffers_no_headerD [OF E a1] by blast
qed

lemma reached_headers:
  assumes "buffers_no_header E" and "reached E v0 h0 i v h"
    and "BlockHeaderObj b \<in> blocks (bstore h) \<union> buffered v"
  shows "BlockHeaderObj b \<in> blocks (bstore h0) \<union> buffered v0"
  using assms(2,3)
proof (induction rule: reached.induct)
  case start
  then show ?case .
next
  case (step i v h v' h')
  show ?case using step.IH setupMiner_headers [OF assms(1) step.hyps(3) step.prems] .
qed

lemma setupMiner_create_fails:
  assumes "index (Owners (gmcfg h)) i = Inr owner"
    and "index (Workers (gmcfg h)) i = Inr worker"
    and "index (PeerIDs (gmcfg h)) i = Inr pid"
    and "mustEnc E (CreateStorageMinerParams owner worker (NewInt (SectorSize E)) pid) = Inr params"
    and "doExec E v StorageMarketAddress owner (CreateStorageMiner E) params (bstore h)
           = (Inl (CallFailed d), bstore h)"
  shows "setupMiner E i v h = (Inl (Errorf ''failed to create genesis miner'' (CallFailed d)), h)"
  using assms by (simp add: setupMiner_def andThen_def wrapE_def on_bstore_def liftE_def)

lemma setupMiner_update_fails:
  assumes "index (Owners (gmcfg h)) i = Inr owner"
    and "index (Workers (gmcfg h)) i = Inr worker"
    and "index (PeerIDs (gmcfg h)) i = Inr pid"
    and "mustEnc E (CreateStorageMinerParams owner worker (NewInt (SectorSize E)) pid) = Inr params"
    and "doExec E v StorageMarketAddress owner (CreateStorageMiner E) params (bstore h)
           = (Inr (rval, v1), bstore h)"
    and "NewFromBytes E rval = Inr maddr"
    and "mustEnc E (UpdateStorageParams (NewInt 5000)) = Inr params2"
    and "doExec E v1 StorageMarketAddress maddr (UpdateStorage E) params2 (bstore h)
           = (Inl (CallFailed d), bstore h)"
  shows "setupMiner E i v h =
           (Inl (Errorf ''failed to update total storage'' (CallFailed d)),
            h\<lparr>gmcfg := (gmcfg h)\<lparr>MinerAddrs := MinerAddrs (gmcfg h) @ [maddr]\<rparr>\<rparr>)"
  using assms by (simp add: setupMiner_def andThen_def wrapE_def on_bstore_def liftE_def)

lemma MakeGenesisBlock_miner_fails:
  assumes tree: "MakeInitialStateTree E r1 r2 r3 (bstore h) = (Inr state, b1)"
    and flush: "StateTree_Flush state b1 = (Inr sroot, b2)"
    and vm: "NewVM sroot b2 = (Inr v0, b2)"
    and reach: "reached E v0 (h\<lparr>bstore := b2\<rparr>) i v hi"
    and i: "i < length (Workers (gmcfg hi))"
    and fails: "setupMiner E i v hi = (Inl e, hf)"
  shows "MakeGenesisBlock E r1 r2 r3 ts h = (Inl (wrapf ''setup storage miners failed'' e), hf)"
proof -
  have "miners_loop E 0 v0 (h\<lparr>bstore := b2\<rparr>) = (Inl e, hf)"
    using reached_loop [OF reach] miners_loop_fail [OF i fails] by simp
  then have "SetupStorageMiners E sroot (h\<lparr>bstore := b2\<rparr>) = (Inl e, hf)"
    using vm by (simp add: SetupStorageMiners_def andThen_def wrapE_def on_bstore_def)
  then show ?thesis
    using tree flush by (simp add: MakeGenesisBlock_def andThen_def wrapE_def on_bstore_def)
qed


lemma NewVM_buffered: "NewVM sroot bs = (Inr v, bs') \<Longrightarrow> buffered v = {}"
  by (auto simp: NewVM_Inr)

lemma sample_buffers_no_header: "buffers_no_header sample_env"
  unfolding buffers_no_header_def
  by (auto simp: sample_env_def sample_apply_def Let_def split: if_splits)

text \<open>
  Claim C5. Let the initial state tree be built and flushed, the engine be created, and
  the loop arrive at the miner \<open>i\<close> with the heap \<open>hi\<close>. If the engine answers the
  create-miner message of this miner with an exit code other than 0, \<open>MakeGenesisBlock\<close>
  returns the error of \<open>doExec\<close>, which carries the diagnostic of the engine, wrapped as
  "failed to create genesis miner" and "setup storage miners failed", and leaves the heap
  \<open>hi\<close>. If that message succeeds and the update-storage message of the new miner is
  answered with an exit code other than 0, the error is wrapped as "failed to update total
  storage", and the heap is \<open>hi\<close> with the address of the miner appended. In both cases no
  header is returned and nothing is written to the blockstore after the message; and when
  the blockstore held no block header at the start and the engine buffers none, it holds
  none at the end.
\<close>

theorem nonzero_exit_aborts:
  assumes tree: "MakeInitialStateTree E r1 r2 r3 (bstore h) = (Inr state, b1)"
    and flush: "StateTree_Flush state b1 = (Inr sroot, b2)"
    and vm: "NewVM sroot b2 = (Inr v0, b2)"
    and reach: "reached E v0 (h\<lparr>bstore := b2\<rparr>) i v hi"
    and i: "i < length (Workers (gmcfg hi))"
    and owner: "index (Owners (gmcfg hi)) i = Inr owner"
    and worker: "index (Workers (gmcfg hi)) i = Inr worker"
    and pid: "index (PeerIDs (gmcfg hi)) i = Inr pid"
    and enc: "mustEnc E (CreateStorageMinerParams owner worker (NewInt (SectorSize E)) pid)
                = Inr params"
    and act: "GetActor (cstate v) owner = Inr act"
    and reply: "ApplyMessage E v (blocks (bstore hi))
                  \<lparr>To = StorageMarketAddress, From = owner, Method = CreateStorageMiner E,
                   Params = params, GasLimit = NewInt 1000000, GasPrice = NewInt 0,
                   Value = NewInt 0, MsgNonce = Nonce act\<rparr> = Inr (ret, v1)"
  shows "(ExitCode ret \<noteq> 0 \<longrightarrow>
            MakeGenesisBlock E r1 r2 r3 ts h =
              (Inl (Errorf ''setup storage miners failed''
                     (Errorf ''failed to create genesis miner'' (CallFailed (ActorErr ret)))),
               hi))
       \<and> (\<forall>maddr params2 act2 ret2 v2.
            ExitCode ret = 0 \<and> NewFromBytes E (Return ret) = Inr maddr
            \<and> mustEnc E (UpdateStorageParams (NewInt 5000)) = Inr params2
            \<and> GetActor (cstate v1) maddr = Inr act2
            \<and> ApplyMessage E v1 (blocks (bstore hi))
                  \<lparr>To = StorageMarketAddress, From = maddr, Method = UpdateStorage E,
                   Params = params2, GasLimit = NewInt 1000000, GasPrice = NewInt 0,
                   Value = NewInt 0, MsgNonce = Nonce act2\<rparr> = Inr (ret2, v2)
            \<and> ExitCode ret2 \<noteq> 0 \<longrightarrow>
            MakeGenesisBlock E r1 r2 r3 ts h =
              (Inl (Errorf ''setup storage miners failed''
                     (Errorf ''failed to update total storage'' (CallFailed (ActorErr ret2)))),
               hi\<lparr>gmcfg := (gmcfg hi)\<lparr>MinerAddrs := MinerAddrs (gmcfg hi) @ [maddr]\<rparr>\<rparr>))
       \<and> (buffers_no_header E \<and> (\<forall>b. BlockHeaderObj b \<notin> blocks (bstore h)) \<longrightarrow>
            (\<forall>b. BlockHeaderObj b \<notin> blocks (bstore hi)))"
proof (intro conjI impI allI)
  assume "ExitCode ret \<noteq> 0"
  then have "doExec E v StorageMarketAddress owner (CreateStorageMiner E) params (bstore hi)
               = (Inl (CallFailed (ActorErr ret)), bstore hi)"
    using act reply by (rule doExec_nonzero [rotated 2])
  then have "setupMiner E i v hi =
      (Inl (Errorf ''failed to create genesis miner'' (CallFailed (ActorErr ret))), hi)"
    by (rule setupMiner_create_fails [OF owner worker pid enc])
  then show "MakeGenesisBlock E r1 r2 r3 ts h =
      (Inl (Errorf ''setup storage miners failed''
             (Errorf ''failed to create genesis miner'' (CallFailed (ActorErr ret)))), hi)"
    using MakeGenesisBlock_miner_fails [OF tree flush vm reach i] by simp
next
  fix maddr params2 act2 ret2 v2
  assume a: "ExitCode ret = 0 \<and> NewFromBytes E (Return ret) = Inr maddr
            \<and> mustEnc E (UpdateStorageParams (NewInt 5000)) = Inr params2
            \<and> GetActor (cstate v1) maddr = Inr act2
            \<and> ApplyMessage E v1 (blocks (bstore hi))
                  \<lparr>To = StorageMarketAddress, From = maddr, Method = UpdateStorage E,
                   Params = params2, GasLimit = NewInt 1000000, GasPrice = NewInt 0,
                   Value = NewInt 0, MsgNonce = Nonce act2\<rparr> = Inr (ret2, v2)
            \<and> ExitCode ret2 \<noteq> 0"
  have c: "doExec E v StorageMarketAddress owner (CreateStorageMiner E) params (bstore hi)
             = (Inr (Return ret, v1), bstore hi)"
    unfolding doExec_Inr using act reply a by auto
  have u: "doExec E v1 StorageMarketAddress maddr (UpdateStorage E) params2 (bstore hi)
             = (Inl (CallFailed (ActorErr ret2)), bstore hi)"
    using a by (intro doExec_nonzero) auto
  have "setupMiner E i v hi =
      (Inl (Errorf ''failed to update total storage'' (CallFailed (ActorErr ret2))),
       hi\<lparr>gmcfg := (gmcfg hi)\<lparr>MinerAddrs := MinerAddrs (gmcfg hi) @ [maddr]\<rparr>\<rparr>)"
    using a by (intro setupMiner_update_fails [OF owner worker pid enc c _ _ u]) auto
  then show "MakeGenesisBlock E r1 r2 r3 ts h =
      (Inl (Errorf ''setup storage miners failed''
             (Errorf ''failed to update total storage'' (CallFailed (ActorErr ret2)))),
       hi\<lparr>gmcfg := (gmcfg hi)\<lparr>MinerAddrs := MinerAddrs (gmcfg hi) @ [maddr]\<rparr>\<rparr>)"
    using MakeGenesisBlock_miner_fails [OF tree flush vm reach i] by simp
next
  fix b
  assume n: "buffers_no_header E \<and> (\<forall>b. BlockHeaderObj b \<notin> blocks (bstore h))"
  show "BlockHeaderObj b \<notin> blocks (bstore hi)"
  proof
    assume "BlockHeaderObj b \<in> blocks (bstore hi)"
    then have "BlockHeaderObj b \<in> blocks (bstore (h\<lparr>bstore := b2\<rparr>)) \<union> buffered v0"
      using reached_headers [OF _ reach, of b] n by simp
    then have "BlockHeaderObj b \<in> blocks b2" using NewVM_buffered [OF vm] by simp
    then have "BlockHeaderObj b \<in> blocks b1"
      using flush by (auto simp: StateTree_Flush_def cst_Put_Inr)
    then have "BlockHeaderObj b \<in> blocks (bstore h)"
      using MakeInitialStateTree_headers [OF tree] by simp
    then show False using n by simp
  qed
qed

theorem nonzero_exit_aborts_witness:
  "fst (MakeGenesisBlock sample_env sample_balances sample_balances sample_balances 7
          \<lparr>bstore = mem_bstore, gmcfg = sample_cfg\<lparr>PeerIDs := [''bad'']\<rparr>\<rparr>)
     = Inl (Errorf ''setup storage miners failed''
             (Errorf ''failed to create genesis miner'' (CallFailed ''bad peer'')))
   \<and> fst (MakeGenesisBlock sample_env sample_balances sample_balances sample_balances 7
          \<lparr>bstore = mem_bstore, gmcfg = sample_cfg\<lparr>PeerIDs := [''lazy'']\<rparr>\<rparr>)
     = Inl (Errorf ''setup storage miners failed''
             (Errorf ''failed to update total storage'' (CallFailed ''no storage'')))
   \<and> (\<forall>b. BlockHeaderObj b \<notin> blocks (bstore (snd
          (MakeGenesisBlock sample_env sample_balances sample_balances sample_balances 7
             \<lparr>bstore = mem_bstore, gmcfg = sample_cfg\<lparr>PeerIDs := [''bad'']\<rparr>\<rparr>))))"
proof -
  let ?A = "Actor AccountActorCodeCid (CidOf EmptyObject) 0 100"
  let ?h = "\<lambda>p. \<lparr>bstore = mem_bstore, gmcfg = sample_cfg\<lparr>PeerIDs := [p]\<rparr>\<rparr>"
  obtain state b1 where
    tree: "MakeInitialStateTree sample_env sample_balances sample_balances sample_balances
             mem_bstore = (Inr state, b1)"
    and A: "state (Address ''A'') = Some ?A"
    and M: "state (Address ''miner:lazy'') = None"
    and r1: "refuses b1 = (\<lambda>x. False)"
    by atomize_elim (simp add: run_defs sample_defs)
  let ?b2 = "b1\<lparr>blocks := insert (StateTreeObj state) (blocks b1)\<rparr>"
  let ?v0 = "\<lparr>cstate = state, buffered = {}\<rparr>"
  have flush: "StateTree_Flush state b1 = (Inr (CidOf (StateTreeObj state)), ?b2)"
    by (simp add: StateTree_Flush_def cst_Put_def r1)
  have vm: "NewVM (CidOf (StateTreeObj state)) ?b2 = (Inr ?v0, ?b2)"
    by (simp add: NewVM_Inr)
  have act: "GetActor (cstate ?v0) (Address ''A'') = Inr ?A"
    by (simp add: GetActor_def A)
  have i: "0 < length (Workers (gmcfg (?h p\<lparr>bstore := ?b2\<rparr>)))" for p
    by (simp add: sample_cfg_def)
  have o: "index (Owners (gmcfg (?h p\<lparr>bstore := ?b2\<rparr>))) 0 = Inr (Address ''A'')"
    and w: "index (Workers (gmcfg (?h p\<lparr>bstore := ?b2\<rparr>))) 0 = Inr (Address ''B'')"
    and p: "index (PeerIDs (gmcfg (?h p\<lparr>bstore := ?b2\<rparr>))) 0 = Inr p" for p
    by (simp_all add: sample_cfg_def index_def)
  have enc: "mustEnc sample_env (CreateStorageMinerParams (Address ''A'') (Address ''B'')
               (NewInt (SectorSize sample_env)) p) = Inr (''create:'' @ p)" for p
    by (simp add: mustEnc_def sample_env_def)
  have bad: "ApplyMessage sample_env ?v0 (blocks (bstore (?h ''bad''\<lparr>bstore := ?b2\<rparr>)))
      \<lparr>To = StorageMarketAddress, From = Address ''A'',
       Method = CreateStorageMiner sample_env, Params = ''create:'' @ ''bad'',
       GasLimit = NewInt 1000000, GasPrice = NewInt 0, Value = NewInt 0, MsgNonce = Nonce ?A\<rparr>
      = Inr (\<lparr>ExitCode = 1, Return = [], ActorErr = ''bad peer''\<rparr>, ?v0)"
    by (simp add: sample_env_def sample_apply_def)
  let ?ms = "StorageMinerActorStateObj \<lparr>Power = 0, Opaque = ''lazy''\<rparr>"
  let ?m = "Actor (CodeCid ''sminer'') (CidOf ?ms) 0 0"
  let ?v1 = "\<lparr>cstate = state(Address ''miner:lazy'' \<mapsto> ?m), buffered = {?ms}\<rparr>"
  have lazy: "ApplyMessage sample_env ?v0 (blocks (bstore (?h ''lazy''\<lparr>bstore := ?b2\<rparr>)))
      \<lparr>To = StorageMarketAddress, From = Address ''A'',
       Method = CreateStorageMiner sample_env, Params = ''create:'' @ ''lazy'',
       GasLimit = NewInt 1000000, GasPrice = NewInt 0, Value = NewInt 0, MsgNonce = Nonce ?A\<rparr>
      = Inr (\<lparr>ExitCode = 0, Return = ''miner:lazy'', ActorErr = []\<rparr>, ?v1)"
    by (simp add: sample_env_def sample_apply_def M Let_def)
  have lazy2: "ExitCode \<lparr>ExitCode = 0, Return = ''miner:lazy'', ActorErr = []\<rparr> = 0
     \<and> NewFromBytes sample_env (Return \<lparr>ExitCode = 0, Return = ''miner:lazy'', ActorErr = []\<rparr>)
         = Inr (Address ''miner:lazy'')
     \<and> mustEnc sample_env (UpdateStorageParams (NewInt 5000)) = Inr ''update''
     \<and> GetActor (cstate ?v1) (Address ''miner:lazy'') = Inr ?m
     \<and> ApplyMessage sample_env ?v1 (blocks (bstore (?h ''lazy''\<lparr>bstore := ?b2\<rparr>)))
         \<lparr>To = StorageMarketAddress, From = Address ''miner:lazy'',
          Method = UpdateStorage sample_env, Params = ''update'',
          GasLimit = NewInt 1000000, GasPrice = NewInt 0, Value = NewInt 0, MsgNonce = Nonce ?m\<rparr>
         = Inr (\<lparr>ExitCode = 2, Return = [], ActorErr = ''no storage''\<rparr>, ?v1)
     \<and> ExitCode \<lparr>ExitCode = 2, Return = [], ActorErr = ''no storage''\<rparr> \<noteq> 0"
    by (simp add: sample_env_def sample_apply_def mustEnc_def GetActor_def)
  have tree': "MakeInitialStateTree sample_env sample_balances sample_balances sample_balances
             (bstore (?h p)) = (Inr state, b1)" for p
    using tree by simp
  note t1 = nonzero_exit_aborts [OF tree' flush vm reached.start i o w p enc act bad,
      where ts = 7]
  note t2 = nonzero_exit_aborts [OF tree' flush vm reached.start i o w p enc act lazy,
      where ts = 7]
  have 1: "fst (MakeGenesisBlock sample_env sample_balances sample_balances sample_balances 7
      (?h ''bad'')) = Inl (Errorf ''setup storage miners failed''
             (Errorf ''failed to create genesis miner'' (CallFailed ''bad peer'')))"
    and 3: "\<forall>b. BlockHeaderObj b \<notin> blocks (bstore (snd
          (MakeGenesisBlock sample_env sample_balances sample_balances sample_balances 7
             (?h ''bad''))))"
    using t1 sample_buffers_no_header by (simp_all add: mem_bstore_def)
  have 2: "fst (MakeGenesisBlock sample_env sample_balances sample_balances sample_balances 7
      (?h ''lazy'')) = Inl (Errorf ''setup storage miners failed''
             (Errorf ''failed to update total storage'' (CallFailed ''no storage'')))"
    using t2 [THEN conjunct2, THEN conjunct1, rule_format, OF lazy2] by simp
  show ?thesis using 1 2 3 by simp
qed

end
